theory Spec2Isabelle
  imports Complex_Main
begin

section \<open>Python values shared by both modules\<close>

text \<open>
  Python's \<^verbatim>\<open>str(n)\<close> for an unbounded integer: an optional minus sign followed by
  the decimal digits, most significant first, without leading zeros.
\<close>

definition digit_char :: "nat \<Rightarrow> char" where
  "digit_char d = ''0123456789'' ! d"

function str_nat :: "nat \<Rightarrow> string" where
  "str_nat n = (if n < 10 then [digit_char n] else str_nat (n div 10) @ [digit_char (n mod 10)])"
  by pat_completeness auto
termination
  by (relation "measure (\<lambda>n. n)") auto

definition str_int :: "int \<Rightarrow> string" where
  "str_int i = (if i < 0 then CHR ''-'' # str_nat (nat (- i)) else str_nat (nat i))"

text \<open>
  Reading a decimal string back (Python's \<^verbatim>\<open>int(s)\<close> on a string of digits), used to
  state that \<open>str_int\<close> loses nothing.
\<close>

definition digit_val :: "char \<Rightarrow> nat" where
  "digit_val c = of_char c - 48"

definition is_digit :: "char \<Rightarrow> bool" where
  "is_digit c = (48 \<le> (of_char c :: nat) \<and> (of_char c :: nat) \<le> 57)"

definition parse_nat :: "string \<Rightarrow> nat" where
  "parse_nat s = foldl (\<lambda>acc c. 10 * acc + digit_val c) 0 s"

definition squote :: string where
  "squote = [CHR 0x27]"

text \<open>
  A Python \<^verbatim>\<open>float\<close> is a finite double, an infinity or a NaN; the finite ones are
  taken as the reals they denote. The values that a method or a price provider hands back are \<^verbatim>\<open>None\<close>, a
  \<^verbatim>\<open>bool\<close>, an \<^verbatim>\<open>int\<close>, a \<^verbatim>\<open>float\<close> or some other object.
\<close>

datatype pyfloat = Finite real | PosInf | NegInf | NaN

datatype py_value = PNone | PBool bool | PInt int | PFloat pyfloat | PObject string

section \<open>script.py: the cross-chain relayer\<close>

subsection \<open>Exceptions, log records and observable effects\<close>

text \<open>
  The exceptions that the modelled part of \<^verbatim>\<open>script.py\<close> raises or catches. Each carries
  the text that \<^verbatim>\<open>str(e)\<close> gives where that text is produced by a library;
  \<open>KeyError\<close> carries the missing key.
\<close>

datatype exn =
    ConnectionError string
  | BlockNotFound
  | KeyError string
  | OtherException string

fun str_exn :: "exn \<Rightarrow> string" where
  "str_exn (ConnectionError m) = m"
| "str_exn BlockNotFound = []"
| "str_exn (KeyError k) = squote @ k @ squote"
| "str_exn (OtherException m) = m"

datatype level = DEBUG | INFO | WARNING | ERROR | CRITICAL

datatype json = JNull | JNum int | JStr string | JObj "(string \<times> json) list"

text \<open>
  What one call of the program does to the outside world, in order: a log record, the
  log query sent to the source node (\<^verbatim>\<open>create_filter(fromBlock, toBlock)\<close> followed by
  \<^verbatim>\<open>get_all_entries()\<close>), an HTTP POST (endpoint, JSON body, timeout in seconds), and a
  completed \<^verbatim>\<open>json.dump\<close> of the state to a path.
\<close>

datatype effect =
    Log level string
  | GetLogs int int
  | HttpPost string json nat
  | WriteFile string json

subsection \<open>Configuration (class ConfigManager)\<close>

record config =
  SOURCE_CHAIN_RPC_URL :: string
  DESTINATION_CHAIN_API_ENDPOINT :: string
  BLOCK_CONFIRMATIONS :: int
  STATE_FILE_PATH :: string

subsection \<open>State management (class StateDB)\<close>

text \<open>
  The state dictionary has the single key \<^verbatim>\<open>last_scanned_block\<close>, holding \<^verbatim>\<open>None\<close> or
  an integer. The state file is missing, holds text that \<^verbatim>\<open>json.load\<close> rejects, or holds a
  dumped state.
\<close>

type_synonym state = "int option"

datatype file_content = Missing | Unparsable | Holds state

text \<open>
  How the file system answers one \<^verbatim>\<open>save_state\<close>: the write goes through; or
  \<^verbatim>\<open>open(path, 'w')\<close> raises \<^verbatim>\<open>IOError\<close> and the file is as it was; or the file was
  opened, hence truncated, and writing it raises \<^verbatim>\<open>IOError\<close>, which leaves a strict prefix
  of the JSON text behind.
\<close>

datatype save_io = WriteSucceeds | OpenFails string | DumpFails string

definition state_json :: "state \<Rightarrow> json" where
  "state_json s = JObj [(''last_scanned_block'', case s of None \<Rightarrow> JNull | Some b \<Rightarrow> JNum b)]"

definition load_state :: "string \<Rightarrow> file_content \<Rightarrow> state \<times> effect list" where
  "load_state filepath f =
     (case f of
        Holds s \<Rightarrow> (s, [])
      | _ \<Rightarrow> (None,
          [Log WARNING (''State file not found or corrupted at '' @ squote @ filepath @ squote
                        @ ''. Starting with default state.'')]))"

definition save_state :: "string \<Rightarrow> state \<Rightarrow> save_io \<Rightarrow> file_content \<Rightarrow> file_content \<times> effect list" where
  "save_state filepath s io f =
     (case io of
        WriteSucceeds \<Rightarrow>
          (Holds s,
           [WriteFile filepath (state_json s),
            Log INFO (''State successfully saved to '' @ squote @ filepath @ squote @ ''.'')])
      | OpenFails e \<Rightarrow>
          (f,
           [Log ERROR (''Failed to save state to '' @ squote @ filepath @ squote @ '': '' @ e)])
      | DumpFails e \<Rightarrow>
          (Unparsable,
           [Log ERROR (''Failed to save state to '' @ squote @ filepath @ squote @ '': '' @ e)]))"

subsection \<open>Blockchain interaction (class BlockchainConnector)\<close>

text \<open>
  What \<^verbatim>\<open>get_web3_instance\<close> meets when it is called: the connection is alive; or it is
  not and \<^verbatim>\<open>connect()\<close> succeeds, reading the chain id and the latest block for its log
  record; or it is not and something inside the \<^verbatim>\<open>try\<close> of \<^verbatim>\<open>connect()\<close> raises, which
  leaves \<^verbatim>\<open>self.web3 = None\<close>.
\<close>

datatype connection = Connected | Reconnects int int | ReconnectFails string

text \<open>
  \<open>get_web3_instance\<close> returns the exception it raises, if any, and its log records.
\<close>

definition get_web3_instance :: "string \<Rightarrow> connection \<Rightarrow> exn option \<times> effect list" where
  "get_web3_instance rpc_url c =
     (case c of
        Connected \<Rightarrow> (None, [])
      | Reconnects chain_id latest \<Rightarrow>
          (None,
           [Log WARNING ''Connection lost. Attempting to reconnect...'',
            Log INFO (''Successfully connected to blockchain node at '' @ rpc_url
                      @ ''. Chain ID: '' @ str_int chain_id @ '', Latest Block: ''
                      @ str_int latest)])
      | ReconnectFails e \<Rightarrow>
          (Some (ConnectionError ''Unable to establish a connection to the blockchain node.''),
           [Log WARNING ''Connection lost. Attempting to reconnect...'',
            Log ERROR (''Error connecting to blockchain node: '' @ e)]))"

subsection \<open>Event scanning (class EventScanner)\<close>

text \<open>
  A \<^verbatim>\<open>HexBytes\<close> value is used only through its \<^verbatim>\<open>.hex()\<close> method, so it is modelled by
  the string that method returns. A raw log entry is a dictionary; a key that is absent is
  \<open>None\<close> here and a \<^verbatim>\<open>KeyError\<close> in Python.
\<close>

datatype hexbytes = HexBytes (hex: string)

record raw_args =
  arg_sender :: "string option"
  arg_destinationChainId :: "int option"
  arg_recipient :: "string option"
  arg_token :: "string option"
  arg_amount :: "int option"
  arg_transactionId :: "hexbytes option"

record raw_log =
  log_args :: "raw_args option"
  log_transactionHash :: "hexbytes option"
  log_blockNumber :: "int option"

record event =
  transactionHash :: string
  blockNumber :: int
  sender :: string
  destinationChainId :: int
  recipient :: string
  token :: string
  amount :: int
  transactionId :: string

definition subscript :: "'a option \<Rightarrow> string \<Rightarrow> exn + 'a" where
  "subscript field key = (case field of None \<Rightarrow> Inl (KeyError key) | Some v \<Rightarrow> Inr v)"

definition bind_exn :: "exn + 'a \<Rightarrow> ('a \<Rightarrow> exn + 'b) \<Rightarrow> exn + 'b" where
  "bind_exn m k = (case m of Inl e \<Rightarrow> Inl e | Inr v \<Rightarrow> k v)"

definition format_event :: "raw_log \<Rightarrow> exn + event" where
  "format_event event_log =
     bind_exn (subscript (log_args event_log) ''args'') (\<lambda>args.
     bind_exn (subscript (log_transactionHash event_log) ''transactionHash'') (\<lambda>th.
     bind_exn (subscript (log_blockNumber event_log) ''blockNumber'') (\<lambda>bn.
     bind_exn (subscript (arg_sender args) ''sender'') (\<lambda>sd.
     bind_exn (subscript (arg_destinationChainId args) ''destinationChainId'') (\<lambda>dc.
     bind_exn (subscript (arg_recipient args) ''recipient'') (\<lambda>rc.
     bind_exn (subscript (arg_token args) ''token'') (\<lambda>tk.
     bind_exn (subscript (arg_amount args) ''amount'') (\<lambda>am.
     bind_exn (subscript (arg_transactionId args) ''transactionId'') (\<lambda>ti.
       Inr \<lparr> transactionHash = hex th, blockNumber = bn, sender = sd,
             destinationChainId = dc, recipient = rc, token = tk, amount = am,
             transactionId = hex ti \<rparr>)))))))))"

text \<open>The list comprehension \<^verbatim>\<open>[self._format_event(event) for event in events]\<close>: the
  first entry that raises ends it.\<close>

fun format_events :: "raw_log list \<Rightarrow> exn + event list" where
  "format_events [] = Inr []"
| "format_events (l # ls) =
     bind_exn (format_event l) (\<lambda>e.
     bind_exn (format_events ls) (\<lambda>es. Inr (e # es)))"

definition event_name :: string where
  "event_name = ''TokensLocked''"

text \<open>
  \<open>query from to\<close> is what the source node does with the filter for the block range:
  it returns the raw entries or raises.
\<close>

definition scan_for_events ::
  "(int \<Rightarrow> int \<Rightarrow> exn + raw_log list) \<Rightarrow> int \<Rightarrow> int \<Rightarrow> event list \<times> effect list" where
  "scan_for_events query from_block to_block =
     (if from_block > to_block then
        ([], [Log DEBUG (''from_block ('' @ str_int from_block @ '') > to_block (''
                         @ str_int to_block @ ''). No scan needed.'')])
      else
        let fx = [Log INFO (''Scanning for '' @ squote @ event_name @ squote
                            @ '' events from block '' @ str_int from_block @ '' to ''
                            @ str_int to_block @ ''...''),
                  GetLogs from_block to_block]
        in case query from_block to_block of
             Inr events \<Rightarrow>
               if events \<noteq> [] then
                 let fx = fx @ [Log INFO (''Found '' @ str_int (int (length events)) @ '' new ''
                                          @ squote @ event_name @ squote @ '' event(s).'')]
                 in case format_events events of
                      Inr formatted \<Rightarrow> (formatted, fx)
                    | Inl e \<Rightarrow>
                        ([], fx @ [Log ERROR (''An unexpected error occurred during event scanning: ''
                                              @ str_exn e)])
               else ([], fx @ [Log DEBUG ''No new events found in the scanned range.''])
           | Inl BlockNotFound \<Rightarrow>
               ([], fx @ [Log WARNING (''Block range ['' @ str_int from_block @ ''-''
                                       @ str_int to_block
                                       @ ''] not found. Possibly a reorg or node is not fully synced.'')])
           | Inl e \<Rightarrow>
               ([], fx @ [Log ERROR (''An unexpected error occurred during event scanning: ''
                                     @ str_exn e)]))"

subsection \<open>Relaying (CrossChainRelayer.relay_event)\<close>

text \<open>
  The destination as \<^verbatim>\<open>requests\<close> shows it. \<^verbatim>\<open>requests.post\<close> raises a
  \<^verbatim>\<open>RequestException\<close> (time-out, connection failure, ...) or returns a response.
  \<^verbatim>\<open>raise_for_status\<close> raises \<^verbatim>\<open>HTTPError\<close>, a \<^verbatim>\<open>RequestException\<close>, for a status in
  400..599, and \<^verbatim>\<open>response.json()\<close> raises \<^verbatim>\<open>requests.exceptions.JSONDecodeError\<close>,
  again a \<^verbatim>\<open>RequestException\<close>, for a body that is not JSON. The texts of these
  exceptions and the rendering of the decoded body come with the response.
\<close>

record response =
  status_code :: nat
  http_error_text :: string
  json_body :: "string + string"

datatype post_result = PostRaises string | Responds response

definition raise_for_status :: "response \<Rightarrow> string + unit" where
  "raise_for_status r =
     (if 400 \<le> status_code r \<and> status_code r < 600 then Inl (http_error_text r) else Inr ())"

definition relay_payload :: "event \<Rightarrow> json" where
  "relay_payload ev =
     JObj [(''sourceTransactionHash'', JStr (transactionHash ev)),
           (''sourceBlockNumber'', JNum (blockNumber ev)),
           (''payload'',
              JObj [(''sender'', JStr (sender ev)),
                    (''recipient'', JStr (recipient ev)),
                    (''token'', JStr (token ev)),
                    (''amount'', JStr (str_int (amount ev))),
                    (''uniqueBridgeTxId'', JStr (transactionId ev))])]"

definition relay_failed :: "event \<Rightarrow> string \<Rightarrow> effect" where
  "relay_failed ev e =
     Log ERROR (''Failed to relay event '' @ transactionId ev @ '' to destination API: '' @ e)"

text \<open>
  \<open>relay_event cfg ev dest\<close>: \<open>dest\<close> is what the destination does if it is called.
  The method returns \<^verbatim>\<open>None\<close> on every path, so its result is the effects it has.
\<close>

definition relay_event :: "config \<Rightarrow> event \<Rightarrow> post_result \<Rightarrow> effect list" where
  "relay_event cfg ev dest =
     Log INFO (''Relaying event with txId: '' @ transactionId ev @ '' to destination chain...'') #
     (if amount ev \<le> 0 then
        [Log WARNING (''Skipping event with txId '' @ transactionId ev
                      @ '' due to invalid amount: '' @ str_int (amount ev))]
      else
        HttpPost (DESTINATION_CHAIN_API_ENDPOINT cfg) (relay_payload ev) 10 #
        (case dest of
           PostRaises e \<Rightarrow> [relay_failed ev e]
         | Responds r \<Rightarrow>
             (case raise_for_status r of
                Inl e \<Rightarrow> [relay_failed ev e]
              | Inr _ \<Rightarrow>
                  (case json_body r of
                     Inl e \<Rightarrow> [relay_failed ev e]
                   | Inr body \<Rightarrow>
                       [Log INFO (''Successfully relayed event '' @ transactionId ev
                                  @ ''. Destination API response: '' @ body)]))))"

text \<open>
  The value \<open>relay_event\<close> returns, path by path: the bare \<^verbatim>\<open>return\<close> after the warning,
  and the end of the method after the \<^verbatim>\<open>try\<close>, whether the POST raised, the status was an
  error, the body was not JSON or the delivery went through.
\<close>

definition relay_event_result :: "config \<Rightarrow> event \<Rightarrow> post_result \<Rightarrow> py_value" where
  "relay_event_result cfg ev dest =
     (if amount ev \<le> 0 then PNone
      else
        (case dest of
           PostRaises e \<Rightarrow> PNone
         | Responds r \<Rightarrow>
             (case raise_for_status r of
                Inl e \<Rightarrow> PNone
              | Inr _ \<Rightarrow>
                  (case json_body r of
                     Inl e \<Rightarrow> PNone
                   | Inr body \<Rightarrow> PNone))))"

subsection \<open>One iteration (CrossChainRelayer.process_blocks)\<close>

text \<open>
  The relayer object keeps the state dictionary in memory (\<^verbatim>\<open>self.state\<close>); the state
  file is the other place a checkpoint lives.
\<close>

record relayer =
  state :: state
  state_file :: file_content

text \<open>
  What the outside world does during one iteration: the state of the connection, the
  answer to \<^verbatim>\<open>w3.eth.block_number\<close> (the chain height, or an exception), the answer to a
  log query, the destination's behaviour at the \<open>k\<close>-th event of the iteration, and the
  file system's answer to the save.
\<close>

record env =
  connection :: connection
  eth_block_number :: "exn + int"
  get_all_entries :: "int \<Rightarrow> int \<Rightarrow> exn + raw_log list"
  destination :: "nat \<Rightarrow> post_result"
  disk :: save_io

text \<open>
  Lines 234 to 236 taken together: the chain height that \<open>process_blocks\<close> gets to work
  with, or the exception that leaves it there, from \<^verbatim>\<open>get_web3_instance()\<close> or from
  \<^verbatim>\<open>w3.eth.block_number\<close>.
\<close>

definition block_number :: "env \<Rightarrow> exn + int" where
  "block_number world =
     (case fst (get_web3_instance [] (connection world)) of
        Some e \<Rightarrow> Inl e
      | None \<Rightarrow> eth_block_number world)"

text \<open>Lines 237 to 245: the block range \<open>(from_block, to_block)\<close>.\<close>

definition block_range :: "config \<Rightarrow> int \<Rightarrow> state \<Rightarrow> int \<times> int" where
  "block_range cfg latest_block last_scanned =
     (let to_block = latest_block - BLOCK_CONFIRMATIONS cfg
      in case last_scanned of
           None \<Rightarrow> (to_block, to_block)
         | Some l \<Rightarrow> (max 0 (l - BLOCK_CONFIRMATIONS cfg), to_block))"

text \<open>The loop \<^verbatim>\<open>for event in events: self.relay_event(event)\<close>, from the \<open>k\<close>-th event on.\<close>

fun relay_events :: "config \<Rightarrow> (nat \<Rightarrow> post_result) \<Rightarrow> nat \<Rightarrow> event list \<Rightarrow> effect list" where
  "relay_events cfg dest k [] = []"
| "relay_events cfg dest k (ev # evs) =
     relay_event cfg ev (dest k) @ relay_events cfg dest (Suc k) evs"

text \<open>
  \<open>process_blocks\<close> returns the exception that escapes it, if any, the relayer after the
  call and the effects of the call. The connector's own record of the connection
  (\<^verbatim>\<open>self.web3\<close>) is not part of the relayer here: what the connector finds is given to
  each iteration from outside.
\<close>

definition process_blocks :: "config \<Rightarrow> env \<Rightarrow> relayer \<Rightarrow> exn option \<times> relayer \<times> effect list" where
  "process_blocks cfg world r =
     (let (raised, conn_fx) = get_web3_instance (SOURCE_CHAIN_RPC_URL cfg) (connection world)
      in case raised of
           Some e \<Rightarrow> (Some e, r, conn_fx)
         | None \<Rightarrow>
     (case eth_block_number world of
        Inl e \<Rightarrow> (Some e, r, conn_fx)
      | Inr latest_block \<Rightarrow>
          let (from_block, to_block) = block_range cfg latest_block (state r);
              fx = conn_fx @
                   [case state r of
                      None \<Rightarrow> Log INFO (''First run. Starting scan from block ''
                                         @ str_int from_block @ ''.'')
                    | Some _ \<Rightarrow> Log INFO (''Resuming scan. Re-scanning from block ''
                                           @ str_int from_block @ '' for reorg safety.'')]
          in if from_block > to_block then
               (None, r,
                fx @ [Log INFO (''Chain head ('' @ str_int latest_block
                                @ '') has not progressed enough for new confirmed blocks. Waiting.'')])
             else
               let (events, scan_fx) = scan_for_events (get_all_entries world) from_block to_block
               in if events = [] then
                    let (f, save_fx) =
                          save_state (STATE_FILE_PATH cfg) (Some to_block) (disk world) (state_file r)
                    in (None, \<lparr> state = Some to_block, state_file = f \<rparr>, fx @ scan_fx @ save_fx)
                  else
                    let relay_fx = relay_events cfg (destination world) 0 events;
                        (f, save_fx) =
                          save_state (STATE_FILE_PATH cfg) (Some to_block) (disk world) (state_file r)
                    in (None, \<lparr> state = Some to_block, state_file = f \<rparr>,
                        fx @ scan_fx @ relay_fx @ save_fx)))"

text \<open>
  A start of the process: the constructor reads the state file into memory
  (\<^verbatim>\<open>self.state = self.state_db.load_state()\<close>).
\<close>

definition restart :: "config \<Rightarrow> relayer \<Rightarrow> relayer" where
  "restart cfg r = r \<lparr> state := fst (load_state (STATE_FILE_PATH cfg) (state_file r)) \<rparr>"

text \<open>Reading the effects: the queries sent, the POSTs made, the files written, the levels logged.\<close>

fun queries :: "effect list \<Rightarrow> (int \<times> int) list" where
  "queries [] = []"
| "queries (GetLogs a b # fx) = (a, b) # queries fx"
| "queries (_ # fx) = queries fx"

fun posts :: "effect list \<Rightarrow> (string \<times> json \<times> nat) list" where
  "posts [] = []"
| "posts (HttpPost url body t # fx) = (url, body, t) # posts fx"
| "posts (_ # fx) = posts fx"

fun writes :: "effect list \<Rightarrow> (string \<times> json) list" where
  "writes [] = []"
| "writes (WriteFile p j # fx) = (p, j) # writes fx"
| "writes (_ # fx) = writes fx"

fun logged :: "level \<Rightarrow> effect list \<Rightarrow> string list" where
  "logged lv [] = []"
| "logged lv (Log l m # fx) = (if l = lv then m # logged lv fx else logged lv fx)"
| "logged lv (_ # fx) = logged lv fx"

section \<open>price aggregator module: class PriceAggregator\<close>

subsection \<open>The answers of a provider\<close>

text \<open>A provider returns a value or raises an \<^verbatim>\<open>Exception\<close>.\<close>

datatype call = Raises | Returns py_value

type_synonym provider = "string \<Rightarrow> call"

datatype price_exn = ValueError string | PriceNotFoundError string | OverflowError | TypeError

text \<open>\<^verbatim>\<open>isinstance(price, (int, float))\<close>; \<^verbatim>\<open>bool\<close> is a subclass of \<^verbatim>\<open>int\<close>.\<close>

fun is_int_or_float :: "py_value \<Rightarrow> bool" where
  "is_int_or_float (PBool _) = True"
| "is_int_or_float (PInt _) = True"
| "is_int_or_float (PFloat _) = True"
| "is_int_or_float _ = False"

text \<open>
  \<^verbatim>\<open>price > 0\<close> on such a value; every comparison with a NaN is false. The \<^verbatim>\<open>and\<close>
  of \<^verbatim>\<open>get_price\<close> evaluates it on numbers only, so the last equation is never used
  there.
\<close>

fun gt_zero :: "py_value \<Rightarrow> bool" where
  "gt_zero (PBool b) = b"
| "gt_zero (PInt i) = (0 < i)"
| "gt_zero (PFloat (Finite x)) = (0 < x)"
| "gt_zero (PFloat PosInf) = True"
| "gt_zero _ = False"

text \<open>
  \<^verbatim>\<open>float(price)\<close>. A float is returned as it is. An integer is rounded to 53 significant
  bits, ties to even, and \<^verbatim>\<open>OverflowError\<close> is raised when the rounded magnitude reaches
  \<open>2 ^ 1024\<close>. \<^verbatim>\<open>get_price\<close> calls it on numbers only; \<^verbatim>\<open>float(None)\<close> is a
  \<^verbatim>\<open>TypeError\<close>, and the model gives the same for the objects it does not describe.
\<close>

fun bit_length :: "nat \<Rightarrow> nat" where
  "bit_length n = (if n = 0 then 0 else Suc (bit_length (n div 2)))"

declare bit_length.simps [simp del]

definition round53 :: "nat \<Rightarrow> nat" where
  "round53 n =
     (let e = bit_length n - 53
      in if e = 0 then n
         else let q = n div 2 ^ e; r = n mod 2 ^ e; h = 2 ^ (e - 1)
              in (if h < r \<or> (r = h \<and> odd q) then q + 1 else q) * 2 ^ e)"

definition float_of_int :: "int \<Rightarrow> price_exn + pyfloat" where
  "float_of_int i =
     (let m = round53 (nat \<bar>i\<bar>)
      in if 2 ^ 1024 \<le> m then Inl OverflowError
         else Inr (Finite (if i < 0 then - real m else real m)))"

fun py_float :: "py_value \<Rightarrow> price_exn + pyfloat" where
  "py_float (PFloat x) = Inr x"
| "py_float (PInt i) = float_of_int i"
| "py_float (PBool b) = Inr (Finite (if b then 1 else 0))"
| "py_float _ = Inl TypeError"

subsection \<open>class PriceAggregator\<close>

record price_aggregator =
  providers :: "provider list"

definition PriceAggregator :: "provider list \<Rightarrow> price_exn + price_aggregator" where
  "PriceAggregator ps =
     (if ps = [] then Inl (ValueError ''At least one price provider must be supplied.'')
      else Inr \<lparr> providers = ps \<rparr>)"

text \<open>
  The loop of \<^verbatim>\<open>get_price\<close> over the providers still to be asked. Whatever is raised
  inside the \<^verbatim>\<open>try\<close>, by the provider or by \<^verbatim>\<open>float(price)\<close>, is passed over and the
  loop goes on.
\<close>

fun get_price_from :: "provider list \<Rightarrow> string \<Rightarrow> price_exn + pyfloat" where
  "get_price_from [] token_symbol = Inl (PriceNotFoundError token_symbol)"
| "get_price_from (p # ps) token_symbol =
     (case p token_symbol of
        Raises \<Rightarrow> get_price_from ps token_symbol
      | Returns price \<Rightarrow>
          if price \<noteq> PNone \<and> is_int_or_float price \<and> gt_zero price then
            (case py_float price of
               Inr x \<Rightarrow> Inr x
             | Inl _ \<Rightarrow> get_price_from ps token_symbol)
          else get_price_from ps token_symbol)"

definition get_price :: "price_aggregator \<Rightarrow> string \<Rightarrow> price_exn + pyfloat" where
  "get_price self token_symbol = get_price_from (providers self) token_symbol"

text \<open>
  Three readings of a provider's answer. It is of the documented kind when the provider
  did what its declared return type \<^verbatim>\<open>Optional[float]\<close> and the constructor's docstring
  say: it returned a float or \<^verbatim>\<open>None\<close>, or it failed. It is a positive number when the
  call does not raise and the value passes the three tests of the \<^verbatim>\<open>if\<close>. It is
  usable when, on top of that, \<^verbatim>\<open>float\<close> converts the value.
\<close>

text \<open>
  A provider's answer that the loop returns from: the call does not raise, the value is a
  number greater than zero, and \<^verbatim>\<open>float\<close> converts it.
\<close>

definition documented :: "call \<Rightarrow> bool" where
  "documented c =
     (case c of
        Raises \<Rightarrow> True
      | Returns PNone \<Rightarrow> True
      | Returns (PFloat _) \<Rightarrow> True
      | Returns _ \<Rightarrow> False)"

definition numeric_positive :: "call \<Rightarrow> bool" where
  "numeric_positive c =
     (case c of Raises \<Rightarrow> False | Returns v \<Rightarrow> v \<noteq> PNone \<and> is_int_or_float v \<and> gt_zero v)"

definition usable :: "call \<Rightarrow> bool" where
  "usable c =
     (case c of
        Raises \<Rightarrow> False
      | Returns v \<Rightarrow> v \<noteq> PNone \<and> is_int_or_float v \<and> gt_zero v \<and> \<not> isl (py_float v))"

section \<open>Scenarios\<close>

text \<open>
  The configuration that \<^verbatim>\<open>ConfigManager\<close> builds when the environment sets nothing
  (six confirmations); a source node with a live connection at a given height that answers
  every log query with the same entries, next to a destination that times out; relayers
  with and without a checkpoint; a well-formed \<^verbatim>\<open>TokensLocked\<close> entry and one whose
  \<^verbatim>\<open>amount\<close> is missing; a destination that answers 200 with an empty JSON object; and
  the event record of the well-formed entry for a given amount.
\<close>

definition default_config :: config where
  "default_config =
     \<lparr> SOURCE_CHAIN_RPC_URL = ''https://rpc.ankr.com/eth_sepolia'',
       DESTINATION_CHAIN_API_ENDPOINT = ''https://api.destination-chain.com/relay'',
       BLOCK_CONFIRMATIONS = 6,
       STATE_FILE_PATH = ''state.json'' \<rparr>"

definition node_at :: "int \<Rightarrow> raw_log list \<Rightarrow> save_io \<Rightarrow> env" where
  "node_at h logs io =
     \<lparr> connection = Connected,
       eth_block_number = Inr h,
       get_all_entries = (\<lambda>_ _. Inr logs),
       destination = (\<lambda>_. PostRaises ''Read timed out.''),
       disk = io \<rparr>"

definition checkpointed :: "int \<Rightarrow> relayer" where
  "checkpointed c = \<lparr> state = Some c, state_file = Holds (Some c) \<rparr>"

definition cold_start :: relayer where
  "cold_start = \<lparr> state = None, state_file = Missing \<rparr>"

definition lock_log :: raw_log where
  "lock_log =
     \<lparr> log_args = Some \<lparr> arg_sender = Some ''0xA1'', arg_destinationChainId = Some 137,
                          arg_recipient = Some ''0xB2'', arg_token = Some ''0xC3'',
                          arg_amount = Some 250, arg_transactionId = Some (HexBytes ''0x01'') \<rparr>,
       log_transactionHash = Some (HexBytes ''0xfeed''),
       log_blockNumber = Some 95 \<rparr>"

definition malformed_log :: raw_log where
  "malformed_log =
     \<lparr> log_args = Some \<lparr> arg_sender = Some ''0xA1'', arg_destinationChainId = Some 137,
                          arg_recipient = Some ''0xB2'', arg_token = Some ''0xC3'',
                          arg_amount = None, arg_transactionId = Some (HexBytes ''0x02'') \<rparr>,
       log_transactionHash = Some (HexBytes ''0xbeef''),
       log_blockNumber = Some 96 \<rparr>"

definition accepted :: post_result where
  "accepted = Responds \<lparr> status_code = 200, http_error_text = [], json_body = Inr ''{}'' \<rparr>"

definition locked :: "int \<Rightarrow> event" where
  "locked a =
     \<lparr> transactionHash = ''0xfeed'', blockNumber = 95, sender = ''0xA1'',
       destinationChainId = 137, recipient = ''0xB2'', token = ''0xC3'', amount = a,
       transactionId = ''0x01'' \<rparr>"

text \<open>
  A dictionary's \<^verbatim>\<open>get\<close>, two of the mock providers of the module's example section,
  and a provider that answers with an integer beyond the range of a double.
\<close>

definition dict_get :: "(string \<rightharpoonup> py_value) \<Rightarrow> string \<Rightarrow> py_value" where
  "dict_get d k = (case d k of None \<Rightarrow> PNone | Some v \<Rightarrow> v)"

definition mock_api_1 :: provider where
  "mock_api_1 tok =
     (let prices = [''ETH'' \<mapsto> PFloat (Finite (6001 / 2)), ''BTC'' \<mapsto> PFloat (Finite (240003 / 4))]
      in if tok = ''SOL'' then Raises else Returns (dict_get prices tok))"

definition mock_api_2 :: provider where
  "mock_api_2 tok =
     (let prices = [''ETH'' \<mapsto> PFloat (Finite 3001), ''SOL'' \<mapsto> PFloat (Finite (601 / 4)),
                    ''BTC'' \<mapsto> PNone]
      in Returns (dict_get prices tok))"

definition huge_int_provider :: provider where
  "huge_int_provider tok = Returns (PInt (2 ^ 1024))"
section \<open>The effects of the relayer\<close>

lemma queries_append: "queries (a @ b) = queries a @ queries b"
  by (induction a rule: queries.induct) simp_all

lemma posts_append: "posts (a @ b) = posts a @ posts b"
  by (induction a rule: posts.induct) simp_all

lemma writes_append: "writes (a @ b) = writes a @ writes b"
  by (induction a rule: writes.induct) simp_all

lemma logged_append: "logged lv (a @ b) = logged lv a @ logged lv b"
  by (induction lv a rule: logged.induct) simp_all

lemma scan_queries:
  "queries (snd (scan_for_events q a b)) = (if a > b then [] else [(a, b)])"
  by (simp add: scan_for_events_def Let_def queries_append split: sum.splits exn.splits)

lemma scan_posts: "posts (snd (scan_for_events q a b)) = []"
  by (simp add: scan_for_events_def Let_def posts_append split: sum.splits exn.splits)

lemma scan_writes: "writes (snd (scan_for_events q a b)) = []"
  by (simp add: scan_for_events_def Let_def writes_append split: sum.splits exn.splits)

lemma relay_event_queries: "queries (relay_event cfg ev d) = []"
  by (simp add: relay_event_def relay_failed_def split: post_result.splits sum.splits)

lemma relay_event_writes: "writes (relay_event cfg ev d) = []"
  by (simp add: relay_event_def relay_failed_def split: post_result.splits sum.splits)

lemma relay_events_queries: "queries (relay_events cfg d k evs) = []"
  by (induction evs arbitrary: k) (simp_all add: queries_append relay_event_queries)

lemma relay_events_writes: "writes (relay_events cfg d k evs) = []"
  by (induction evs arbitrary: k) (simp_all add: writes_append relay_event_writes)

lemma save_queries: "queries (snd (save_state p s io f)) = []"
  by (simp add: save_state_def split: save_io.splits)

lemma save_posts: "posts (snd (save_state p s io f)) = []"
  by (simp add: save_state_def split: save_io.splits)


lemma connector_quiet:
  "queries (snd (get_web3_instance url c)) = []"
  "posts (snd (get_web3_instance url c)) = []"
  "writes (snd (get_web3_instance url c)) = []"
  by (simp_all add: get_web3_instance_def split: connection.splits)

lemma block_number_height:
  assumes "block_number world = Inr latest"
  shows "fst (get_web3_instance url (connection world)) = None"
    and "eth_block_number world = Inr latest"
  using assms
  by (auto simp: block_number_def get_web3_instance_def split: connection.splits option.splits)

lemma process_blocks_skip:
  assumes "block_number world = Inr latest"
    and "block_range cfg latest (state r) = (a, b)"
    and "a > b"
  shows "\<exists>cfx m1 m2. queries cfx = [] \<and> posts cfx = [] \<and> writes cfx = []
           \<and> process_blocks cfg world r = (None, r, cfx @ [Log INFO m1, Log INFO m2])"
proof -
  obtain cfx where
    c: "get_web3_instance (SOURCE_CHAIN_RPC_URL cfg) (connection world) = (None, cfx)"
    using block_number_height(1) [OF assms(1), of "SOURCE_CHAIN_RPC_URL cfg"]
    by (cases "get_web3_instance (SOURCE_CHAIN_RPC_URL cfg) (connection world)") simp
  have q: "queries cfx = [] \<and> posts cfx = [] \<and> writes cfx = []"
    using connector_quiet [of "SOURCE_CHAIN_RPC_URL cfg" "connection world"] c by simp
  have "\<exists>m1 m2. process_blocks cfg world r = (None, r, cfx @ [Log INFO m1, Log INFO m2])"
    using assms(2,3) c block_number_height(2) [OF assms(1)]
    by (auto simp: process_blocks_def Let_def split: option.splits)
  with q show ?thesis by blast
qed

lemma process_blocks_scan:
  assumes "block_number world = Inr latest"
    and "block_range cfg latest (state r) = (a, b)"
    and "a \<le> b"
    and "scan_for_events (get_all_entries world) a b = (evs, sfx)"
    and "save_state (STATE_FILE_PATH cfg) (Some b) (disk world) (state_file r) = (f, wfx)"
  shows "\<exists>cfx m. queries cfx = [] \<and> posts cfx = [] \<and> writes cfx = []
           \<and> process_blocks cfg world r =
               (None, \<lparr> state = Some b, state_file = f \<rparr>,
                cfx @ Log INFO m # sfx @ relay_events cfg (destination world) 0 evs @ wfx)"
proof -
  obtain cfx where
    c: "get_web3_instance (SOURCE_CHAIN_RPC_URL cfg) (connection world) = (None, cfx)"
    using block_number_height(1) [OF assms(1), of "SOURCE_CHAIN_RPC_URL cfg"]
    by (cases "get_web3_instance (SOURCE_CHAIN_RPC_URL cfg) (connection world)") simp
  have q: "queries cfx = [] \<and> posts cfx = [] \<and> writes cfx = []"
    using connector_quiet [of "SOURCE_CHAIN_RPC_URL cfg" "connection world"] c by simp
  have "\<exists>m. process_blocks cfg world r =
               (None, \<lparr> state = Some b, state_file = f \<rparr>,
                cfx @ Log INFO m # sfx @ relay_events cfg (destination world) 0 evs @ wfx)"
    using assms(2-5) c block_number_height(2) [OF assms(1)]
    by (auto simp: process_blocks_def Let_def split: option.splits)
  with q show ?thesis by blast
qed

lemma process_blocks_queries:
  assumes "block_number world = Inr latest"
    and "block_range cfg latest (state r) = (a, b)"
  shows "queries (snd (snd (process_blocks cfg world r))) = (if a > b then [] else [(a, b)])"
proof (cases "a > b")
  case True
  with process_blocks_skip [OF assms] show ?thesis
    by (auto simp: queries_append)
next
  case False
  obtain evs sfx where sc: "scan_for_events (get_all_entries world) a b = (evs, sfx)"
    by (cases "scan_for_events (get_all_entries world) a b")
  have q: "queries sfx = [(a, b)]"
    using scan_queries [of "get_all_entries world" a b] sc False by simp
  obtain f wfx where sv: "save_state (STATE_FILE_PATH cfg) (Some b) (disk world) (state_file r) = (f, wfx)"
    by (cases "save_state (STATE_FILE_PATH cfg) (Some b) (disk world) (state_file r)")
  have w: "queries wfx = []"
    using save_queries [of "STATE_FILE_PATH cfg" "Some b" "disk world" "state_file r"] sv by simp
  from False have le: "a \<le> b" by simp
  from process_blocks_scan [OF assms le sc sv] q w False show ?thesis
    by (auto simp: queries_append relay_events_queries)
qed

lemma process_blocks_state:
  assumes "block_number world = Inr latest"
    and "block_range cfg latest (state r) = (a, b)"
    and "a \<le> b"
  shows "fst (process_blocks cfg world r) = None"
    and "state (fst (snd (process_blocks cfg world r))) = Some b"
    and "state_file (fst (snd (process_blocks cfg world r))) =
           fst (save_state (STATE_FILE_PATH cfg) (Some b) (disk world) (state_file r))"
    and "writes (snd (snd (process_blocks cfg world r))) =
           writes (snd (save_state (STATE_FILE_PATH cfg) (Some b) (disk world) (state_file r)))"
proof -
  obtain evs sfx where sc: "scan_for_events (get_all_entries world) a b = (evs, sfx)"
    by (cases "scan_for_events (get_all_entries world) a b")
  obtain f wfx where
    sv: "save_state (STATE_FILE_PATH cfg) (Some b) (disk world) (state_file r) = (f, wfx)"
    by (cases "save_state (STATE_FILE_PATH cfg) (Some b) (disk world) (state_file r)")
  from process_blocks_scan [OF assms sc sv] obtain cfx m where
    cw: "writes cfx = []" and
    pb: "process_blocks cfg world r =
           (None, \<lparr> state = Some b, state_file = f \<rparr>,
            cfx @ Log INFO m # sfx @ relay_events cfg (destination world) 0 evs @ wfx)"
    by blast
  have sw: "writes sfx = []"
    using scan_writes [of "get_all_entries world" a b] sc by simp
  show "fst (process_blocks cfg world r) = None" by (simp add: pb)
  show "state (fst (snd (process_blocks cfg world r))) = Some b" by (simp add: pb)
  show "state_file (fst (snd (process_blocks cfg world r))) =
           fst (save_state (STATE_FILE_PATH cfg) (Some b) (disk world) (state_file r))"
    by (simp add: pb sv)
  show "writes (snd (snd (process_blocks cfg world r))) =
           writes (snd (save_state (STATE_FILE_PATH cfg) (Some b) (disk world) (state_file r)))"
    by (simp add: pb sv sw cw writes_append relay_events_writes)
qed

lemma block_range_to: "block_range cfg h s = (a, b) \<Longrightarrow> b = h - BLOCK_CONFIRMATIONS cfg"
  by (auto simp: block_range_def Let_def split: option.splits)

lemma block_range_from:
  "block_range cfg h (Some c) = (a, b) \<Longrightarrow> a = max 0 (c - BLOCK_CONFIRMATIONS cfg)"
  by (auto simp: block_range_def Let_def)

lemma relay_event_posts:
  "posts (relay_event cfg ev d) =
     (if amount ev \<le> 0 then []
      else [(DESTINATION_CHAIN_API_ENDPOINT cfg, relay_payload ev, 10)])"
  by (cases d) (auto simp: relay_event_def relay_failed_def split: sum.splits)

section \<open>Decimal strings\<close>

lemma digit_char_code: "d < 10 \<Longrightarrow> of_char (digit_char d) = 48 + d"
proof -
  assume "d < 10"
  then have "d \<in> {0, 1, 2, 3, 4, 5, 6, 7, 8, 9}" by auto
  then show ?thesis by (auto simp: digit_char_def)
qed

lemma str_nat_digits: "list_all is_digit (str_nat n)"
proof (induction n rule: str_nat.induct)
  case (1 n)
  show ?case
  proof (cases "n < 10")
    case True
    then show ?thesis
      by (subst str_nat.simps) (simp add: is_digit_def digit_char_code)
  next
    case False
    have "n mod 10 < 10" by simp
    then have "is_digit (digit_char (n mod 10))"
      by (simp add: is_digit_def digit_char_code)
    with False "1.IH" show ?thesis
      by (subst str_nat.simps) simp
  qed
qed

lemma parse_nat_snoc: "parse_nat (s @ [c]) = 10 * parse_nat s + digit_val c"
  by (simp add: parse_nat_def)

lemma parse_str_nat: "parse_nat (str_nat n) = n"
proof (induction n rule: str_nat.induct)
  case (1 n)
  show ?case
  proof (cases "n < 10")
    case True
    then show ?thesis
      by (subst str_nat.simps) (simp add: parse_nat_def digit_val_def digit_char_code)
  next
    case False
    have "n mod 10 < 10" by simp
    then have "digit_val (digit_char (n mod 10)) = n mod 10"
      by (simp add: digit_val_def digit_char_code)
    with False "1.IH" show ?thesis
      by (subst str_nat.simps) (simp add: parse_nat_snoc)
  qed
qed

section \<open>The iteration and its checkpoint\<close>



text \<open>
  Claim C2. The range is \<open>to_block = latest - BLOCK_CONFIRMATIONS\<close>, with
  \<open>from_block = to_block\<close> when the checkpoint is unset and
  \<open>from_block = max 0 (last_scanned_block - BLOCK_CONFIRMATIONS)\<close> otherwise; the one log
  query of an iteration is for exactly this range; and checkpoint 94, height 103 and six
  confirmations give the range \<open>[88, 97]\<close>.
\<close>

theorem C2_scan_range:
  "block_range cfg latest None
     = (latest - BLOCK_CONFIRMATIONS cfg, latest - BLOCK_CONFIRMATIONS cfg)
   \<and> block_range cfg latest (Some c)
     = (max 0 (c - BLOCK_CONFIRMATIONS cfg), latest - BLOCK_CONFIRMATIONS cfg)
   \<and> (block_number world = Inr latest \<longrightarrow>
        queries (snd (snd (process_blocks cfg world r)))
          = (if fst (block_range cfg latest (state r)) > snd (block_range cfg latest (state r))
             then [] else [block_range cfg latest (state r)]))
   \<and> (BLOCK_CONFIRMATIONS cfg = 6 \<longrightarrow> block_range cfg 103 (Some 94) = (88, 97))"
proof -
  have "block_number world = Inr latest \<Longrightarrow>
        queries (snd (snd (process_blocks cfg world r)))
          = (if fst (block_range cfg latest (state r)) > snd (block_range cfg latest (state r))
             then [] else [block_range cfg latest (state r)])"
    using process_blocks_queries [of world latest cfg r "fst (block_range cfg latest (state r))"
        "snd (block_range cfg latest (state r))"]
    by simp
  moreover have "block_range cfg latest None
     = (latest - BLOCK_CONFIRMATIONS cfg, latest - BLOCK_CONFIRMATIONS cfg)"
    by (simp add: block_range_def Let_def)
  moreover have "block_range cfg latest (Some c)
     = (max 0 (c - BLOCK_CONFIRMATIONS cfg), latest - BLOCK_CONFIRMATIONS cfg)"
    by (simp add: block_range_def Let_def)
  moreover have "BLOCK_CONFIRMATIONS cfg = 6 \<longrightarrow> block_range cfg 103 (Some 94) = (88, 97)"
    by (simp add: block_range_def Let_def)
  ultimately show ?thesis by blast
qed

text \<open>
  C2 on a run of the iteration: checkpoint 94, height 103, six confirmations; the node is
  asked for \<open>[88, 97]\<close>.
\<close>

theorem C2_witness:
  "queries (snd (snd (process_blocks default_config (node_at 103 [] WriteSucceeds)
      (checkpointed 94)))) = [(88, 97)]"
  using C2_scan_range [of default_config 103 94 "node_at 103 [] WriteSucceeds" "checkpointed 94"]
  by (simp add: block_range_def Let_def default_config_def node_at_def block_number_def get_web3_instance_def checkpointed_def)

text \<open>
  Claim C3, as the code has it. Over two consecutive iterations that both advance the
  checkpoint, the second starts at \<open>from_block = max 0 (t1 - BLOCK_CONFIRMATIONS)\<close>, so it
  rewinds by at most \<open>BLOCK_CONFIRMATIONS\<close> below the checkpoint \<open>t1\<close> of the first, and
  by exactly that much once \<open>t1\<close> has reached \<open>BLOCK_CONFIRMATIONS\<close>. The checkpoint it
  writes is at least \<open>t1 - BLOCK_CONFIRMATIONS\<close>; it is at least \<open>t1\<close> when the reported
  chain height has not gone down.
\<close>

theorem C3_bounded_rewind:
  assumes "block_number w1 = Inr h1"
    and "block_range cfg h1 (state r0) = (f1, t1)"
    and "f1 \<le> t1"
    and "r1 = fst (snd (process_blocks cfg w1 r0))"
    and "block_number w2 = Inr h2"
    and "block_range cfg h2 (state r1) = (f2, t2)"
    and "f2 \<le> t2"
    and "r2 = fst (snd (process_blocks cfg w2 r1))"
  shows "state r1 = Some t1 \<and> state r2 = Some t2
         \<and> f2 = max 0 (t1 - BLOCK_CONFIRMATIONS cfg)
         \<and> t1 - f2 \<le> BLOCK_CONFIRMATIONS cfg
         \<and> (BLOCK_CONFIRMATIONS cfg \<le> t1 \<longrightarrow> t1 - f2 = BLOCK_CONFIRMATIONS cfg)
         \<and> t1 - BLOCK_CONFIRMATIONS cfg \<le> t2
         \<and> (h1 \<le> h2 \<longrightarrow> t1 \<le> t2)"
proof -
  have s1: "state r1 = Some t1"
    using process_blocks_state(2) [OF assms(1,2,3)] assms(4) by simp
  have s2: "state r2 = Some t2"
    using process_blocks_state(2) [OF assms(5,6,7)] assms(8) by simp
  have t1: "t1 = h1 - BLOCK_CONFIRMATIONS cfg" using assms(2) by (rule block_range_to)
  have t2: "t2 = h2 - BLOCK_CONFIRMATIONS cfg" using assms(6) by (rule block_range_to)
  have f2: "f2 = max 0 (t1 - BLOCK_CONFIRMATIONS cfg)"
    using assms(6) unfolding s1 by (rule block_range_from)
  from s1 s2 t1 t2 f2 assms(7) show ?thesis by auto
qed

text \<open>
  C3 as stated fails: a cold start at height 100 writes checkpoint 94; the next iteration,
  with the node reporting height 96, scans \<open>[88, 90]\<close> and writes checkpoint 90.
\<close>

theorem C3_counterexample:
  "state (fst (snd (process_blocks default_config (node_at 100 [] WriteSucceeds) cold_start)))
     = Some 94
   \<and> queries (snd (snd (process_blocks default_config (node_at 96 [] WriteSucceeds)
        (fst (snd (process_blocks default_config (node_at 100 [] WriteSucceeds) cold_start))))))
     = [(88, 90)]
   \<and> state (fst (snd (process_blocks default_config (node_at 96 [] WriteSucceeds)
        (fst (snd (process_blocks default_config (node_at 100 [] WriteSucceeds) cold_start))))))
     = Some 90"
  by (simp add: process_blocks_def block_range_def scan_for_events_def save_state_def Let_def
      default_config_def node_at_def block_number_def get_web3_instance_def cold_start_def queries_append)

text \<open>
  The amended C3 on a cold start at height 100 followed by an iteration at height 103:
  checkpoints 94 and then 97, the second scan starting at 88.
\<close>

theorem C3_witness:
  "state (fst (snd (process_blocks default_config (node_at 103 [] WriteSucceeds)
        (fst (snd (process_blocks default_config (node_at 100 [] WriteSucceeds) cold_start))))))
     = Some 97
   \<and> (94::int) - 88 \<le> 6 \<and> (94::int) \<le> 97"
  using C3_bounded_rewind [of "node_at 100 [] WriteSucceeds" 100 default_config cold_start 94 94
      "fst (snd (process_blocks default_config (node_at 100 [] WriteSucceeds) cold_start))"
      "node_at 103 [] WriteSucceeds" 103 88 97
      "fst (snd (process_blocks default_config (node_at 103 [] WriteSucceeds)
        (fst (snd (process_blocks default_config (node_at 100 [] WriteSucceeds) cold_start)))))"]
  by (simp add: process_blocks_def block_range_def scan_for_events_def save_state_def Let_def
      default_config_def node_at_def block_number_def get_web3_instance_def cold_start_def)

text \<open>
  Claim C4, as the code has it. When the save at the end of an iteration fails with an
  \<^verbatim>\<open>IOError\<close>, \<open>save_state\<close> catches it: the iteration returns normally, nothing is written,
  the error is the last record logged, and the in-memory checkpoint is already
  \<open>to_block\<close>, so the next iteration of the running process takes its range from
  \<open>to_block\<close>. Only the state file misses the new value: it
  is as before when the file could not be opened and unreadable when the write broke off,
  and a restarted process reads the old checkpoint or none.
\<close>

theorem C4_save_failure:
  assumes "block_number world = Inr latest"
    and "block_range cfg latest (state r) = (from_block, to_block)"
    and "from_block \<le> to_block"
    and "disk world \<noteq> WriteSucceeds"
    and "r' = fst (snd (process_blocks cfg world r))"
  shows "fst (process_blocks cfg world r) = None
         \<and> state r' = Some to_block
         \<and> writes (snd (snd (process_blocks cfg world r))) = []
         \<and> state_file r' =
             (case disk world of OpenFails _ \<Rightarrow> state_file r | _ \<Rightarrow> Unparsable)
         \<and> block_range cfg latest' (state r') =
             (max 0 (to_block - BLOCK_CONFIRMATIONS cfg), latest' - BLOCK_CONFIRMATIONS cfg)
         \<and> state (restart cfg r') =
             (case disk world of OpenFails _ \<Rightarrow> fst (load_state (STATE_FILE_PATH cfg) (state_file r))
              | _ \<Rightarrow> None)
         \<and> (\<exists>fx e. (disk world = OpenFails e \<or> disk world = DumpFails e)
                \<and> snd (snd (process_blocks cfg world r)) =
                    fx @ [Log ERROR (''Failed to save state to '' @ squote @ STATE_FILE_PATH cfg
                                     @ squote @ '': '' @ e)])"
proof -
  obtain evs sfx where sc: "scan_for_events (get_all_entries world) from_block to_block = (evs, sfx)"
    by (cases "scan_for_events (get_all_entries world) from_block to_block")
  obtain f wfx where
    sv: "save_state (STATE_FILE_PATH cfg) (Some to_block) (disk world) (state_file r) = (f, wfx)"
    by (cases "save_state (STATE_FILE_PATH cfg) (Some to_block) (disk world) (state_file r)")
  from process_blocks_scan [OF assms(1,2,3) sc sv] obtain cfx m where
    shape: "process_blocks cfg world r =
           (None, \<lparr> state = Some to_block, state_file = f \<rparr>,
            cfx @ Log INFO m # sfx @ relay_events cfg (destination world) 0 evs @ wfx)"
    by blast
  from assms(4) sv obtain e where
    io: "disk world = OpenFails e \<or> disk world = DumpFails e" and
    wfx: "wfx = [Log ERROR (''Failed to save state to '' @ squote @ STATE_FILE_PATH cfg
                            @ squote @ '': '' @ e)]"
    by (cases "disk world") (auto simp: save_state_def)
  have "snd (snd (process_blocks cfg world r)) =
          (cfx @ Log INFO m # sfx @ relay_events cfg (destination world) 0 evs)
          @ [Log ERROR (''Failed to save state to '' @ squote @ STATE_FILE_PATH cfg
                        @ squote @ '': '' @ e)]"
    by (simp add: shape wfx)
  with io have lg: "\<exists>fx e. (disk world = OpenFails e \<or> disk world = DumpFails e)
                \<and> snd (snd (process_blocks cfg world r)) =
                    fx @ [Log ERROR (''Failed to save state to '' @ squote @ STATE_FILE_PATH cfg
                                     @ squote @ '': '' @ e)]"
    by blast
  note pb = process_blocks_state [OF assms(1,2,3)]
  have s: "state r' = Some to_block" using pb(2) assms(5) by simp
  have f: "state_file r' = (case disk world of OpenFails _ \<Rightarrow> state_file r | _ \<Rightarrow> Unparsable)"
    using pb(3) assms(4,5) by (simp add: save_state_def split: save_io.splits)
  have w: "writes (snd (snd (process_blocks cfg world r))) = []"
    using pb(4) assms(4) by (simp add: save_state_def split: save_io.splits)
  have b: "block_range cfg latest' (state r') =
             (max 0 (to_block - BLOCK_CONFIRMATIONS cfg), latest' - BLOCK_CONFIRMATIONS cfg)"
    by (simp add: s block_range_def Let_def)
  have rs: "state (restart cfg r') =
             (case disk world of OpenFails _ \<Rightarrow> fst (load_state (STATE_FILE_PATH cfg) (state_file r))
              | _ \<Rightarrow> None)"
    using assms(4) by (simp add: restart_def f load_state_def split: save_io.splits)
  from pb(1) s f w b rs lg show ?thesis by blast
qed

text \<open>
  C4 as stated fails: at checkpoint 94 and height 103 the save fails, yet the checkpoint in
  memory is 97, and the next iteration, at height 110, scans \<open>[91, 104]\<close>, not the
  \<open>[88, 104]\<close> that checkpoint 94 would give.
\<close>

theorem C4_counterexample:
  "state (checkpointed 94) = Some 94
   \<and> state (fst (snd (process_blocks default_config
        (node_at 103 [] (OpenFails ''Permission denied'')) (checkpointed 94)))) = Some 97
   \<and> queries (snd (snd (process_blocks default_config (node_at 110 [] WriteSucceeds)
        (fst (snd (process_blocks default_config
           (node_at 103 [] (OpenFails ''Permission denied'')) (checkpointed 94)))))))
     = [(91, 104)]
   \<and> block_range default_config 110 (Some 94) = (88, 104)"
  by (simp add: process_blocks_def block_range_def scan_for_events_def save_state_def Let_def
      default_config_def node_at_def block_number_def get_web3_instance_def checkpointed_def queries_append)

text \<open>
  The amended C4 on the same run: memory holds 97, the file still holds 94, and a restart
  resumes from 94.
\<close>

theorem C4_witness:
  "state (fst (snd (process_blocks default_config
        (node_at 103 [] (OpenFails ''Permission denied'')) (checkpointed 94)))) = Some 97
   \<and> state_file (fst (snd (process_blocks default_config
        (node_at 103 [] (OpenFails ''Permission denied'')) (checkpointed 94)))) = Holds (Some 94)
   \<and> state (restart default_config (fst (snd (process_blocks default_config
        (node_at 103 [] (OpenFails ''Permission denied'')) (checkpointed 94))))) = Some 94"
  using C4_save_failure [of "node_at 103 [] (OpenFails ''Permission denied'')" 103 default_config
      "checkpointed 94" 88 97
      "fst (snd (process_blocks default_config
        (node_at 103 [] (OpenFails ''Permission denied'')) (checkpointed 94)))" 110]
  by (simp add: block_range_def Let_def default_config_def node_at_def block_number_def get_web3_instance_def checkpointed_def
      load_state_def)

text \<open>
  Claim C6, as the code has it. An iteration whose \<open>from_block\<close> exceeds \<open>to_block\<close>
  returns without a log query, without a POST, without a write, and leaves the relayer as
  it was. With checkpoint 94 and six confirmations this happens only below height 94.
\<close>

theorem C6_skip:
  assumes "block_number world = Inr latest"
    and "block_range cfg latest (state r) = (from_block, to_block)"
    and "from_block > to_block"
  shows "fst (process_blocks cfg world r) = None
         \<and> fst (snd (process_blocks cfg world r)) = r
         \<and> queries (snd (snd (process_blocks cfg world r))) = []
         \<and> posts (snd (snd (process_blocks cfg world r))) = []
         \<and> writes (snd (snd (process_blocks cfg world r))) = []
         \<and> (BLOCK_CONFIRMATIONS cfg = 6 \<and> state r = Some 94 \<longrightarrow> latest < 94)"
proof -
  have "BLOCK_CONFIRMATIONS cfg = 6 \<and> state r = Some 94 \<longrightarrow> latest < 94"
    using assms(2,3) by (auto simp: block_range_def Let_def)
  with process_blocks_skip [OF assms] show ?thesis
    by (auto simp: queries_append posts_append writes_append)
qed

text \<open>
  The scenario of C6 fails: at checkpoint 94, height 96 and six confirmations the range is
  \<open>[88, 90]\<close>; the iteration scans it and writes checkpoint 90.
\<close>

theorem C6_counterexample:
  "state (checkpointed 94) = Some 94
   \<and> queries (snd (snd (process_blocks default_config (node_at 96 [] WriteSucceeds)
        (checkpointed 94)))) = [(88, 90)]
   \<and> fst (snd (process_blocks default_config (node_at 96 [] WriteSucceeds) (checkpointed 94)))
       = checkpointed 90
   \<and> writes (snd (snd (process_blocks default_config (node_at 96 [] WriteSucceeds)
        (checkpointed 94)))) = [(''state.json'', state_json (Some 90))]"
  by (simp add: process_blocks_def block_range_def scan_for_events_def save_state_def Let_def
      default_config_def node_at_def block_number_def get_web3_instance_def checkpointed_def queries_append writes_append)

text \<open>
  The amended C6 at checkpoint 94 and height 93: the range would be \<open>[88, 87]\<close>, nothing
  is scanned or written, and the checkpoint stays 94.
\<close>

theorem C6_witness:
  "fst (snd (process_blocks default_config (node_at 93 [] WriteSucceeds) (checkpointed 94)))
     = checkpointed 94
   \<and> queries (snd (snd (process_blocks default_config (node_at 93 [] WriteSucceeds)
        (checkpointed 94)))) = []
   \<and> writes (snd (snd (process_blocks default_config (node_at 93 [] WriteSucceeds)
        (checkpointed 94)))) = []"
  using C6_skip [of "node_at 93 [] WriteSucceeds" 93 default_config "checkpointed 94" 88 87]
  by (simp add: block_range_def Let_def default_config_def node_at_def block_number_def get_web3_instance_def checkpointed_def)

section \<open>The scanner\<close>

lemma format_events_fails:
  "l \<in> set logs \<Longrightarrow> format_event l = Inl e \<Longrightarrow> \<exists>e'. format_events logs = Inl e'"
proof (induction logs)
  case Nil
  then show ?case by simp
next
  case (Cons a logs)
  show ?case
  proof (cases "format_event a")
    case (Inl e1)
    then show ?thesis by (simp add: bind_exn_def)
  next
    case (Inr ev)
    with Cons.prems have "l \<in> set logs" by auto
    from Cons.IH [OF this Cons.prems(2)] obtain e' where "format_events logs = Inl e'" ..
    with Inr show ?thesis by (simp add: bind_exn_def)
  qed
qed

lemma scan_for_events_decode_error:
  assumes "a \<le> b" and "q a b = Inr logs" and "format_events logs = Inl e"
  shows "scan_for_events q a b =
           ([], [Log INFO (''Scanning for '' @ squote @ event_name @ squote
                            @ '' events from block '' @ str_int a @ '' to ''
                            @ str_int b @ ''...''),
                 GetLogs a b,
                 Log INFO (''Found '' @ str_int (int (length logs)) @ '' new ''
                           @ squote @ event_name @ squote @ '' event(s).''),
                 Log ERROR (''An unexpected error occurred during event scanning: ''
                            @ str_exn e)])"
proof -
  from assms(3) have "logs \<noteq> []" by auto
  with assms show ?thesis
    by (simp add: scan_for_events_def Let_def)
qed

text \<open>
  Claim C5, as the code has it. When the entries of a scanned range include one that
  \<open>format_event\<close> cannot decode, the exception is caught inside the scanner: the scan logs
  an error and returns the empty list, so every entry of the range is dropped, and the
  iteration goes on, posts nothing and advances the checkpoint to \<open>to_block\<close>.
\<close>

theorem C5_decode_error_swallowed:
  assumes "block_number world = Inr latest"
    and "block_range cfg latest (state r) = (from_block, to_block)"
    and "from_block \<le> to_block"
    and "get_all_entries world from_block to_block = Inr logs"
    and "l \<in> set logs"
    and "format_event l = Inl e"
  shows "fst (scan_for_events (get_all_entries world) from_block to_block) = []
         \<and> (\<exists>e'. logged ERROR (snd (scan_for_events (get_all_entries world) from_block to_block))
                   = [''An unexpected error occurred during event scanning: '' @ str_exn e'])
         \<and> fst (process_blocks cfg world r) = None
         \<and> state (fst (snd (process_blocks cfg world r))) = Some to_block
         \<and> posts (snd (snd (process_blocks cfg world r))) = []"
proof -
  from format_events_fails [OF assms(5,6)] obtain e' where fe: "format_events logs = Inl e'" ..
  note sc = scan_for_events_decode_error [of from_block to_block "get_all_entries world", OF assms(3,4) fe]
  obtain f wfx where
    sv: "save_state (STATE_FILE_PATH cfg) (Some to_block) (disk world) (state_file r) = (f, wfx)"
    by (cases "save_state (STATE_FILE_PATH cfg) (Some to_block) (disk world) (state_file r)")
  have wp: "posts wfx = []"
    using save_posts [of "STATE_FILE_PATH cfg" "Some to_block" "disk world" "state_file r"] sv
    by simp
  from process_blocks_scan [OF assms(1,2,3) sc sv] obtain cfx m where
    cp: "posts cfx = []" and
    pb: "process_blocks cfg world r =
           (None, \<lparr> state = Some to_block, state_file = f \<rparr>,
            cfx @ Log INFO m # [Log INFO (''Scanning for '' @ squote @ event_name @ squote
                            @ '' events from block '' @ str_int from_block @ '' to ''
                            @ str_int to_block @ ''...''),
                 GetLogs from_block to_block,
                 Log INFO (''Found '' @ str_int (int (length logs)) @ '' new ''
                           @ squote @ event_name @ squote @ '' event(s).''),
                 Log ERROR (''An unexpected error occurred during event scanning: ''
                            @ str_exn e')] @ relay_events cfg (destination world) 0 [] @ wfx)"
    by blast
  have "logged ERROR (snd (scan_for_events (get_all_entries world) from_block to_block))
          = [''An unexpected error occurred during event scanning: '' @ str_exn e']"
    by (simp add: sc)
  then have "\<exists>e'. logged ERROR (snd (scan_for_events (get_all_entries world) from_block to_block))
                   = [''An unexpected error occurred during event scanning: '' @ str_exn e']"
    by blast
  moreover have "fst (scan_for_events (get_all_entries world) from_block to_block) = []"
    by (simp add: sc)
  moreover have "posts (snd (snd (process_blocks cfg world r))) = []"
    by (simp add: pb wp cp posts_append)
  ultimately show ?thesis
    by (simp add: pb)
qed

text \<open>
  C5 as stated fails: a range holding a well-formed entry and one without \<^verbatim>\<open>amount\<close>
  scans to the empty list; no exception leaves the iteration, nothing is posted and the
  checkpoint moves from 94 to 97.
\<close>

theorem C5_counterexample:
  "format_event malformed_log = Inl (KeyError ''amount'')
   \<and> fst (scan_for_events (get_all_entries (node_at 103 [lock_log, malformed_log] WriteSucceeds))
            88 97) = []
   \<and> fst (process_blocks default_config (node_at 103 [lock_log, malformed_log] WriteSucceeds)
            (checkpointed 94)) = None
   \<and> fst (snd (process_blocks default_config (node_at 103 [lock_log, malformed_log] WriteSucceeds)
            (checkpointed 94))) = checkpointed 97
   \<and> posts (snd (snd (process_blocks default_config
            (node_at 103 [lock_log, malformed_log] WriteSucceeds) (checkpointed 94)))) = []"
  by (simp add: process_blocks_def block_range_def scan_for_events_def save_state_def Let_def
      default_config_def node_at_def block_number_def get_web3_instance_def checkpointed_def lock_log_def malformed_log_def
      format_event_def bind_exn_def subscript_def posts_append)

text \<open>
  The amended C5 on the same range.
\<close>

theorem C5_witness:
  "fst (process_blocks default_config (node_at 103 [lock_log, malformed_log] WriteSucceeds)
            (checkpointed 94)) = None
   \<and> state (fst (snd (process_blocks default_config
            (node_at 103 [lock_log, malformed_log] WriteSucceeds) (checkpointed 94)))) = Some 97"
  using C5_decode_error_swallowed [of "node_at 103 [lock_log, malformed_log] WriteSucceeds" 103
      default_config "checkpointed 94" 88 97 "[lock_log, malformed_log]" malformed_log
      "KeyError ''amount''"]
  by (simp add: block_range_def Let_def default_config_def node_at_def block_number_def get_web3_instance_def checkpointed_def
      malformed_log_def format_event_def bind_exn_def subscript_def)

text \<open>
  Claim C8. When the node answers the log query of a valid range with
  \<^verbatim>\<open>BlockNotFound\<close>, the scanner returns the empty list and logs one warning and no
  error; the query was sent.
\<close>

theorem C8_range_unavailable:
  assumes "from_block \<le> to_block"
    and "query from_block to_block = Inl BlockNotFound"
  shows "fst (scan_for_events query from_block to_block) = []
         \<and> logged WARNING (snd (scan_for_events query from_block to_block)) =
             [''Block range ['' @ str_int from_block @ ''-'' @ str_int to_block
              @ ''] not found. Possibly a reorg or node is not fully synced.'']
         \<and> logged ERROR (snd (scan_for_events query from_block to_block)) = []
         \<and> queries (snd (scan_for_events query from_block to_block)) = [(from_block, to_block)]"
  using assms by (simp add: scan_for_events_def Let_def)

text \<open>
  C8 on the range \<open>[88, 97]\<close>.
\<close>

theorem C8_witness:
  "fst (scan_for_events (\<lambda>a b. Inl BlockNotFound) 88 97) = []
   \<and> length (logged WARNING (snd (scan_for_events (\<lambda>a b. Inl BlockNotFound) 88 97))) = 1"
  using C8_range_unavailable [of 88 97 "\<lambda>a b. Inl BlockNotFound"]
  by simp

section \<open>The dispatcher\<close>

lemma relay_event_result_None: "relay_event_result cfg ev dest = PNone"
  by (cases dest) (simp_all add: relay_event_result_def split: sum.splits)

text \<open>
  Claim C7, as the code has it. For an event whose amount is zero or negative,
  \<open>relay_event\<close> makes no POST, whatever the destination would have answered. It yields
  no outcome record: it returns \<^verbatim>\<open>None\<close>, and all it does is log that it relays the event
  and then warn that it skips it "due to invalid amount", followed by the amount.
\<close>

theorem C7_invalid_amount:
  assumes "amount ev \<le> 0"
  shows "posts (relay_event cfg ev dest) = []
         \<and> relay_event_result cfg ev dest = PNone
         \<and> logged WARNING (relay_event cfg ev dest) =
             [''Skipping event with txId '' @ transactionId ev
              @ '' due to invalid amount: '' @ str_int (amount ev)]
         \<and> relay_event cfg ev dest =
             [Log INFO (''Relaying event with txId: '' @ transactionId ev
                        @ '' to destination chain...''),
              Log WARNING (''Skipping event with txId '' @ transactionId ev
                           @ '' due to invalid amount: '' @ str_int (amount ev))]"
  using assms by (simp add: relay_event_def relay_event_result_def)

text \<open>
  C7 as stated fails: for an event with amount 0 the method yields \<^verbatim>\<open>None\<close>, the very
  value it yields for an event with amount 250 that it has just delivered, so what it
  yields says neither "not delivered" nor why; and the one text that gives a cause, the
  warning, is not the reason "invalid amount" but a sentence with the transaction id and
  the amount in it.
\<close>

theorem C7_counterexample:
  "relay_event_result default_config (locked 0) accepted = PNone
   \<and> relay_event_result default_config (locked 250) accepted = PNone
   \<and> posts (relay_event default_config (locked 250) accepted) =
       [(''https://api.destination-chain.com/relay'', relay_payload (locked 250), 10)]
   \<and> logged INFO (relay_event default_config (locked 250) accepted) =
       [''Relaying event with txId: 0x01 to destination chain...'',
        ''Successfully relayed event 0x01. Destination API response: {}'']
   \<and> logged WARNING (relay_event default_config (locked 0) accepted) =
       [''Skipping event with txId 0x01 due to invalid amount: 0'']
   \<and> ''Skipping event with txId 0x01 due to invalid amount: 0'' \<noteq> ''invalid amount''"
  by (simp add: relay_event_def relay_event_result_def raise_for_status_def accepted_def
      locked_def default_config_def str_int_def str_nat.simps digit_char_def)

text \<open>
  The amended C7 on an event with amount 0 and a destination that would have answered
  200.
\<close>

theorem C7_witness:
  "posts (relay_event default_config (locked 0) accepted) = []
   \<and> relay_event_result default_config (locked 0) accepted = PNone
   \<and> logged WARNING (relay_event default_config (locked 0) accepted)
     = [''Skipping event with txId 0x01 due to invalid amount: 0'']"
  using C7_invalid_amount [of "locked 0" default_config accepted]
  by (simp add: locked_def str_int_def str_nat.simps digit_char_def)

text \<open>
  Claim C9. For an event whose amount is positive, \<open>relay_event\<close> makes exactly one
  POST, to the configured endpoint, with a timeout of 10 seconds and the body
  \<^verbatim>\<open>{sourceTransactionHash, sourceBlockNumber, payload: {sender, recipient, token, amount,
  uniqueBridgeTxId}}\<close>, in which \<^verbatim>\<open>amount\<close> is a string of decimal digits that reads back
  as the event's amount.
\<close>

theorem C9_payload:
  assumes "0 < amount ev"
  shows "posts (relay_event cfg ev dest) =
           [(DESTINATION_CHAIN_API_ENDPOINT cfg,
             JObj [(''sourceTransactionHash'', JStr (transactionHash ev)),
                   (''sourceBlockNumber'', JNum (blockNumber ev)),
                   (''payload'',
                      JObj [(''sender'', JStr (sender ev)),
                            (''recipient'', JStr (recipient ev)),
                            (''token'', JStr (token ev)),
                            (''amount'', JStr (str_int (amount ev))),
                            (''uniqueBridgeTxId'', JStr (transactionId ev))])],
             10)]
         \<and> list_all is_digit (str_int (amount ev))
         \<and> int (parse_nat (str_int (amount ev))) = amount ev"
proof (intro conjI)
  from assms have "posts (relay_event cfg ev dest)
      = [(DESTINATION_CHAIN_API_ENDPOINT cfg, relay_payload ev, 10)]"
    by (simp add: relay_event_posts)
  then show "posts (relay_event cfg ev dest) =
           [(DESTINATION_CHAIN_API_ENDPOINT cfg,
             JObj [(''sourceTransactionHash'', JStr (transactionHash ev)),
                   (''sourceBlockNumber'', JNum (blockNumber ev)),
                   (''payload'',
                      JObj [(''sender'', JStr (sender ev)),
                            (''recipient'', JStr (recipient ev)),
                            (''token'', JStr (token ev)),
                            (''amount'', JStr (str_int (amount ev))),
                            (''uniqueBridgeTxId'', JStr (transactionId ev))])],
             10)]"
    unfolding relay_payload_def .
  from assms have s: "str_int (amount ev) = str_nat (nat (amount ev))"
    by (simp add: str_int_def)
  show "list_all is_digit (str_int (amount ev))"
    unfolding s by (rule str_nat_digits)
  have "int (parse_nat (str_nat (nat (amount ev)))) = int (nat (amount ev))"
    by (simp only: parse_str_nat)
  also from assms have "\<dots> = amount ev" by simp
  finally show "int (parse_nat (str_int (amount ev))) = amount ev"
    unfolding s .
qed

text \<open>
  C9 on an event with amount 250.
\<close>

theorem C9_witness:
  "posts (relay_event default_config (locked 250) (PostRaises ''Read timed out.'')) =
     [(''https://api.destination-chain.com/relay'',
       JObj [(''sourceTransactionHash'', JStr ''0xfeed''),
             (''sourceBlockNumber'', JNum 95),
             (''payload'',
                JObj [(''sender'', JStr ''0xA1''),
                      (''recipient'', JStr ''0xB2''),
                      (''token'', JStr ''0xC3''),
                      (''amount'', JStr ''250''),
                      (''uniqueBridgeTxId'', JStr ''0x01'')])],
       10)]
   \<and> parse_nat ''250'' = 250"
  using C9_payload [of "locked 250" default_config "PostRaises ''Read timed out.''"]
  by (simp add: locked_def default_config_def str_int_def str_nat.simps digit_char_def)

section \<open>The price aggregator\<close>

lemma bit_length_gt: "2 ^ k \<le> n \<Longrightarrow> k < bit_length n"
proof (induction k arbitrary: n)
  case 0
  then have "n \<noteq> 0" by auto
  then show ?case by (subst bit_length.simps) simp
next
  case (Suc k)
  then have "2 ^ k \<le> n div 2" by simp
  then have "k < bit_length (n div 2)" by (rule Suc.IH)
  moreover have "0 < (2::nat) ^ Suc k" by simp
  with Suc.prems have "n \<noteq> 0" by linarith
  ultimately show ?case by (subst bit_length.simps) simp
qed

lemma bit_length_lower: "n \<noteq> 0 \<Longrightarrow> 2 ^ (bit_length n - 1) \<le> n"
proof (induction n rule: bit_length.induct)
  case (1 n)
  show ?case
  proof (cases "n div 2 = 0")
    case True
    with "1.prems" have "n = 1" by auto
    then show ?thesis
      by (simp add: bit_length.simps [of "Suc 0"] bit_length.simps [of 0])
  next
    case False
    with "1.IH" "1.prems" have ih: "2 ^ (bit_length (n div 2) - 1) \<le> n div 2" by simp
    from False have "0 < bit_length (n div 2)"
      by (subst bit_length.simps) simp
    then have "(2::nat) ^ bit_length (n div 2) = 2 * 2 ^ (bit_length (n div 2) - 1)"
      by (cases "bit_length (n div 2)") simp_all
    also have "\<dots> \<le> 2 * (n div 2)" using ih by simp
    also have "\<dots> \<le> n" by simp
    finally have "2 ^ bit_length (n div 2) \<le> n" .
    with "1.prems" show ?thesis
      by (subst bit_length.simps) simp
  qed
qed

lemma round53_overflow:
  assumes "2 ^ 1024 \<le> n"
  shows "2 ^ 1024 \<le> round53 n"
proof -
  define e where "e = bit_length n - 53"
  define q where "q = n div 2 ^ e"
  from assms have bl: "1024 < bit_length n" by (rule bit_length_gt)
  then have e0: "e \<noteq> 0" and eb: "bit_length n - 1 = 52 + e" by (simp_all add: e_def)
  from assms have "n \<noteq> 0" by auto
  then have "2 ^ (52 + e) \<le> n" using bit_length_lower [of n] eb by simp
  then have "(2 ^ (52 + e)) div 2 ^ e \<le> q"
    unfolding q_def by (rule div_le_mono)
  then have q52: "2 ^ 52 \<le> q" by (simp add: power_add)
  have "(2::nat) ^ 1024 \<le> 2 ^ (52 + e)"
    using bl eb by (intro power_increasing) simp_all
  also have "\<dots> = 2 ^ 52 * 2 ^ e" by (simp add: power_add)
  also have "\<dots> \<le> q * 2 ^ e" using q52 by simp
  also have "\<dots> \<le> round53 n"
    using e0 by (simp add: round53_def Let_def e_def [symmetric] q_def [symmetric])
  finally show ?thesis .
qed

lemma float_of_int_overflow: "2 ^ 1024 \<le> i \<Longrightarrow> float_of_int i = Inl OverflowError"
proof -
  assume a: "2 ^ 1024 \<le> i"
  then have "0 \<le> i" by (meson order_trans zero_le_numeral zero_le_power)
  with a have "2 ^ 1024 \<le> nat \<bar>i\<bar>" by (simp add: le_nat_iff)
  then have "2 ^ 1024 \<le> round53 (nat \<bar>i\<bar>)" by (rule round53_overflow)
  then show ?thesis by (simp add: float_of_int_def Let_def)
qed

lemma get_price_from_skip:
  "\<not> usable (p tok) \<Longrightarrow> get_price_from (p # ps) tok = get_price_from ps tok"
  by (cases "p tok") (auto simp: usable_def split: sum.splits)

lemma get_price_from_hit:
  "p tok = Returns v \<Longrightarrow> v \<noteq> PNone \<Longrightarrow> is_int_or_float v \<Longrightarrow> gt_zero v
     \<Longrightarrow> py_float v = Inr x \<Longrightarrow> get_price_from (p # ps) tok = Inr x"
  by simp

lemma get_price_from_first:
  "i < length ps \<Longrightarrow> \<forall>j<i. \<not> usable ((ps ! j) tok) \<Longrightarrow> (ps ! i) tok = Returns v
     \<Longrightarrow> v \<noteq> PNone \<Longrightarrow> is_int_or_float v \<Longrightarrow> gt_zero v \<Longrightarrow> py_float v = Inr x
     \<Longrightarrow> get_price_from ps tok = Inr x"
proof (induction ps arbitrary: i)
  case Nil
  then show ?case by simp
next
  case (Cons p ps)
  show ?case
  proof (cases i)
    case 0
    with Cons.prems show ?thesis
      by (intro get_price_from_hit [of p tok v]) simp_all
  next
    case (Suc k)
    with Cons.prems have "\<not> usable (p tok)" by auto
    then have skip: "get_price_from (p # ps) tok = get_price_from ps tok"
      by (rule get_price_from_skip)
    have "k < length ps" using Cons.prems(1) Suc by simp
    moreover have "\<forall>j<k. \<not> usable ((ps ! j) tok)"
      using Cons.prems(2) Suc by auto
    moreover have "(ps ! k) tok = Returns v" using Cons.prems(3) Suc by simp
    ultimately have "get_price_from ps tok = Inr x"
      using Cons.prems(4-7) by (rule Cons.IH)
    with skip show ?thesis by simp
  qed
qed

lemma get_price_from_none:
  "\<forall>p\<in>set ps. \<not> usable (p tok) \<Longrightarrow> get_price_from ps tok = Inl (PriceNotFoundError tok)"
proof (induction ps)
  case Nil
  then show ?case by simp
next
  case (Cons p ps)
  from Cons.prems have "\<not> usable (p tok)" by simp
  then have "get_price_from (p # ps) tok = get_price_from ps tok"
    by (rule get_price_from_skip)
  moreover from Cons.prems have "get_price_from ps tok = Inl (PriceNotFoundError tok)"
    by (intro Cons.IH) simp
  ultimately show ?case by (simp only:)
qed

text \<open>
  What \<open>get_price\<close> does on every provider list: it returns \<^verbatim>\<open>float(p)\<close> for the answer
  \<open>p\<close> of the first usable provider, and raises \<open>PriceNotFoundError\<close> with the token
  symbol when there is none.
\<close>

lemma get_price_first_usable:
  assumes "PriceAggregator ps = Inr agg"
  shows "ps \<noteq> []
         \<and> (i < length ps \<and> (\<forall>j<i. \<not> usable ((ps ! j) tok)) \<and> (ps ! i) tok = Returns v
              \<and> v \<noteq> PNone \<and> is_int_or_float v \<and> gt_zero v \<and> py_float v = Inr x
            \<longrightarrow> get_price agg tok = Inr x)
         \<and> ((\<forall>p\<in>set ps. \<not> usable (p tok))
            \<longrightarrow> get_price agg tok = Inl (PriceNotFoundError tok))"
proof -
  from assms have ne: "ps \<noteq> []" and agg: "providers agg = ps"
    by (auto simp: PriceAggregator_def split: if_splits)
  show ?thesis
    using ne get_price_from_first [of i ps tok v x] get_price_from_none [of ps tok]
    by (auto simp: get_price_def agg)
qed

text \<open>
  On answers of the documented kind every positive number is usable, and \<open>get_price\<close>
  returns the float of the first provider, in list order, that does not raise and returns
  a number greater than zero, or raises \<open>PriceNotFoundError\<close> with the token symbol when
  no provider does.
\<close>

lemma usable_documented: "documented c \<Longrightarrow> usable c = numeric_positive c"
  by (auto simp: documented_def usable_def numeric_positive_def
      split: call.splits py_value.splits)

lemma get_price_documented:
  assumes "PriceAggregator ps = Inr agg"
    and "\<forall>p\<in>set ps. documented (p tok)"
  shows "(i < length ps \<and> (\<forall>j<i. \<not> numeric_positive ((ps ! j) tok))
            \<and> (ps ! i) tok = Returns v \<and> numeric_positive (Returns v)
          \<longrightarrow> get_price agg tok = py_float v)
         \<and> ((\<forall>p\<in>set ps. \<not> numeric_positive (p tok))
            \<longrightarrow> get_price agg tok = Inl (PriceNotFoundError tok))"
proof -
  have u: "\<And>p. p \<in> set ps \<Longrightarrow> usable (p tok) = numeric_positive (p tok)"
    using assms(2) by (simp add: usable_documented)
  have none: "(\<forall>p\<in>set ps. \<not> numeric_positive (p tok))
            \<longrightarrow> get_price agg tok = Inl (PriceNotFoundError tok)"
    using get_price_first_usable [OF assms(1), of i tok v "Finite 0"] u by simp
  have hit: "get_price agg tok = py_float v"
    if i: "i < length ps" and before: "\<forall>j<i. \<not> numeric_positive ((ps ! j) tok)"
      and at: "(ps ! i) tok = Returns v" and pos: "numeric_positive (Returns v)"
  proof -
    from i have "ps ! i \<in> set ps" by simp
    with assms(2) at have dv: "documented (Returns v)" by force
    with pos obtain x where v: "v = PFloat x"
      by (cases v) (auto simp: documented_def numeric_positive_def)
    have nb: "\<forall>j<i. \<not> usable ((ps ! j) tok)"
    proof (intro allI impI)
      fix j assume "j < i"
      with i have "ps ! j \<in> set ps" by simp
      with u before \<open>j < i\<close> show "\<not> usable ((ps ! j) tok)" by simp
    qed
    from pos v have "v \<noteq> PNone \<and> is_int_or_float v \<and> gt_zero v"
      by (simp add: numeric_positive_def)
    with get_price_first_usable [OF assms(1), of i tok v x] i nb at v
    show ?thesis by simp
  qed
  from none hit show ?thesis by blast
qed

text \<open>
  Claim C10. \<open>get_price\<close> is to return \<^verbatim>\<open>float(p)\<close> for the answer \<open>p\<close> of the first
  provider, in list order, that does not raise and returns a number greater than zero, and
  to raise \<open>PriceNotFoundError\<close> only when no provider gives such an answer. At this input
  the code does otherwise: the first provider does not raise and returns the positive
  integer \<open>2 ^ 1024\<close>; \<^verbatim>\<open>float\<close> raises \<^verbatim>\<open>OverflowError\<close> on it inside the \<^verbatim>\<open>try\<close>, so the
  answer is passed over like a failing provider: \<open>get_price\<close> returns the second
  provider's 3001.0, and with no second provider it raises \<open>PriceNotFoundError\<close>.
\<close>

theorem C10_failing_input:
  "PriceAggregator [huge_int_provider, mock_api_2]
     = Inr \<lparr> providers = [huge_int_provider, mock_api_2] \<rparr>
   \<and> huge_int_provider ''ETH'' = Returns (PInt (2 ^ 1024))
   \<and> numeric_positive (huge_int_provider ''ETH'')
   \<and> py_float (PInt (2 ^ 1024)) = Inl OverflowError
   \<and> get_price \<lparr> providers = [huge_int_provider, mock_api_2] \<rparr> ''ETH'' = Inr (Finite 3001)
   \<and> get_price \<lparr> providers = [huge_int_provider] \<rparr> ''ETH'' = Inl (PriceNotFoundError ''ETH'')"
  by (simp add: PriceAggregator_def numeric_positive_def huge_int_provider_def mock_api_2_def
      get_price_def dict_get_def float_of_int_overflow Let_def)

end
